theory Spec2Isabelle
  imports Main "HOL-Library.Char_ord" "HOL-Library.List_Lexorder" "HOL-Library.Word"
begin

section \<open>Waku mini chat: crypto helpers and the chat client's message store\<close>

text \<open>
  The development follows \<^verbatim>\<open>src/sdk/crypto.ts\<close> and \<^verbatim>\<open>src/sdk/chatClient.ts\<close>.
  A \<^verbatim>\<open>Uint8Array\<close> is a list of bytes, a JavaScript string a \<open>string\<close>, a \<^verbatim>\<open>Map\<close> a
  partial function. The numbers that occur (protocol version, \<^verbatim>\<open>Date.now()\<close>) are
  integers.
\<close>

type_synonym bytes = "8 word list"

subsection \<open>Library primitives\<close>

text \<open>
  The functions of \<^verbatim>\<open>@noble/curves\<close>, \<^verbatim>\<open>@noble/hashes\<close>, \<^verbatim>\<open>@noble/ciphers\<close>, of Node's
  \<^verbatim>\<open>Buffer\<close> and of \<^verbatim>\<open>TextEncoder\<close>/\<^verbatim>\<open>TextDecoder\<close> are not code of the repository. Every
  function below takes them as one record of functions, in the argument order of the
  library. \<open>xchacha20poly1305_decrypt\<close> and \<open>ed25519_verify\<close> are \<open>None\<close> where the
  library throws: \<^verbatim>\<open>ed25519.verify\<close> returns a boolean for a signature of 64 bytes and a
  public key of 32 bytes and throws for any other length.
\<close>

record prims =
  ed25519_sign :: "bytes \<Rightarrow> bytes \<Rightarrow> bytes"
  ed25519_verify :: "bytes \<Rightarrow> bytes \<Rightarrow> bytes \<Rightarrow> bool option"
  x25519_getSharedSecret :: "bytes \<Rightarrow> bytes \<Rightarrow> bytes"
  sha256 :: "bytes \<Rightarrow> bytes"
  hkdf_sha256 :: "bytes \<Rightarrow> bytes \<Rightarrow> bytes \<Rightarrow> nat \<Rightarrow> bytes"
  xchacha20poly1305_encrypt :: "bytes \<Rightarrow> bytes \<Rightarrow> bytes \<Rightarrow> bytes"
  xchacha20poly1305_decrypt :: "bytes \<Rightarrow> bytes \<Rightarrow> bytes \<Rightarrow> bytes option"
  toBase64 :: "bytes \<Rightarrow> string"
  fromBase64 :: "string \<Rightarrow> bytes"
  textEncode :: "string \<Rightarrow> bytes"
  textDecode :: "bytes \<Rightarrow> string"

subsection \<open>JavaScript values and \<^verbatim>\<open>JSON.stringify\<close> on primitives\<close>

text \<open>
  The values \<^verbatim>\<open>stableStringify\<close> is applied to. An object is the list of its own
  enumerable properties in insertion order; a JavaScript object has no key twice. A
  number is an integer, printed in decimal as JavaScript prints an integer below ten to
  the power 21; from there on JavaScript writes an exponent, which \<open>show_int\<close> does
  not.
\<close>

datatype json =
    JUndefined
  | JNull
  | JBool bool
  | JNum int
  | JStr string
  | JArr "json list"
  | JObj "(string \<times> json) list"

definition digit_char :: "nat \<Rightarrow> char" where
  "digit_char d = char_of (48 + d)"

fun show_nat :: "nat \<Rightarrow> string" where
  "show_nat n = (if n < 10 then [digit_char n] else show_nat (n div 10) @ [digit_char (n mod 10)])"

declare show_nat.simps [simp del]

definition show_int :: "int \<Rightarrow> string" where
  "show_int i = (if i < 0 then ''-'' @ show_nat (nat (- i)) else show_nat (nat i))"

text \<open>The decimal digits, to read back what \<open>show_nat\<close> writes.\<close>

definition is_digit :: "char \<Rightarrow> bool" where
  "is_digit c = (48 \<le> (of_char c :: nat) \<and> (of_char c :: nat) \<le> 57)"

definition hex_char :: "nat \<Rightarrow> char" where
  "hex_char d = (if d < 10 then char_of (48 + d) else char_of (87 + d))"

text \<open>
  \<^verbatim>\<open>QuoteJSONString\<close> of ECMA-262 on the code units below 256: the seven short escapes,
  \<^verbatim>\<open>\u00xx\<close> for the other control characters, every other character as it is.
\<close>

definition json_escape :: "char \<Rightarrow> string" where
  "json_escape c =
     (if c = CHR 0x08 then [CHR 0x5C, CHR ''b'']
      else if c = CHR 0x09 then [CHR 0x5C, CHR ''t'']
      else if c = CHR 0x0A then [CHR 0x5C, CHR ''n'']
      else if c = CHR 0x0C then [CHR 0x5C, CHR ''f'']
      else if c = CHR 0x0D then [CHR 0x5C, CHR ''r'']
      else if c = CHR 0x22 then [CHR 0x5C, CHR 0x22]
      else if c = CHR 0x5C then [CHR 0x5C, CHR 0x5C]
      else if of_char c < (32 :: nat) then
        [CHR 0x5C, CHR ''u'', CHR ''0'', CHR ''0'',
         hex_char (of_char c div 16), hex_char (of_char c mod 16)]
      else [c])"

definition quoteJSONString :: "string \<Rightarrow> string" where
  "quoteJSONString s = [CHR 0x22] @ concat (map json_escape s) @ [CHR 0x22]"

text \<open>\<^verbatim>\<open>JSON.stringify\<close> on a value that is neither array nor object; \<open>None\<close> is \<^verbatim>\<open>undefined\<close>.\<close>

fun JSON_stringify :: "json \<Rightarrow> string option" where
  "JSON_stringify JUndefined = None"
| "JSON_stringify JNull = Some ''null''"
| "JSON_stringify (JBool b) = Some (if b then ''true'' else ''false'')"
| "JSON_stringify (JNum n) = Some (show_int n)"
| "JSON_stringify (JStr s) = Some (quoteJSONString s)"
| "JSON_stringify _ = None"

text \<open>\<^verbatim>\<open>Array.prototype.join\<close> on strings.\<close>

fun join :: "string \<Rightarrow> string list \<Rightarrow> string" where
  "join sep [] = []"
| "join sep [x] = x"
| "join sep (x # y # ys) = x @ sep @ join sep (y # ys)"

text \<open>
  \<^verbatim>\<open>join\<close> turns an \<^verbatim>\<open>undefined\<close> element into the empty string; a template literal
  turns \<^verbatim>\<open>undefined\<close> into the text \<^verbatim>\<open>undefined\<close>.
\<close>

definition join_item :: "string option \<Rightarrow> string" where
  "join_item r = (case r of None \<Rightarrow> [] | Some s \<Rightarrow> s)"

definition template :: "string option \<Rightarrow> string" where
  "template r = (case r of None \<Rightarrow> ''undefined'' | Some s \<Rightarrow> s)"

subsection \<open>\<^verbatim>\<open>crypto.ts\<close>\<close>

function stableStringify :: "json \<Rightarrow> string option" where
  "stableStringify (JArr items) =
     Some (''['' @ join '','' (map (\<lambda>item. join_item (stableStringify item)) items) @ '']'')"
| "stableStringify (JObj props) =
     Some (''{'' @
       join '',''
         (map (\<lambda>key. [CHR 0x22] @ key @ [CHR 0x22] @ '':'' @
                 template (case map_of props key of
                             None \<Rightarrow> None
                           | Some v \<Rightarrow> stableStringify v))
              (sort (map fst props))) @
       ''}'')"
| "stableStringify JUndefined = JSON_stringify JUndefined"
| "stableStringify JNull = JSON_stringify JNull"
| "stableStringify (JBool b) = JSON_stringify (JBool b)"
| "stableStringify (JNum n) = JSON_stringify (JNum n)"
| "stableStringify (JStr s) = JSON_stringify (JStr s)"
  by pat_completeness auto
termination
proof (relation "measure size")
  show "wf (measure size)" by simp
next
  fix items :: "json list" and item
  assume "item \<in> set items"
  then show "(item, JArr items) \<in> measure size"
    by (induction items) auto
next
  fix props :: "(string \<times> json) list" and key v
  assume "map_of props key = Some v"
  then have "size v < Suc (size_list (size_prod (\<lambda>_. 0) size) props)"
    by (induction props) (auto split: if_splits)
  then show "(v, JObj props) \<in> measure size"
    by simp
qed

text \<open>
  Two values that are equal as maps, whatever the insertion order of their properties:
  the same value, arrays of such values position by position, or objects with the same
  keys under which such values are stored.
\<close>

inductive same_json :: "json \<Rightarrow> json \<Rightarrow> bool" where
  same_value: "same_json v v"
| same_array: "list_all2 same_json xs ys \<Longrightarrow> same_json (JArr xs) (JArr ys)"
| same_object:
    "distinct (map fst ps) \<Longrightarrow> distinct (map fst qs) \<Longrightarrow>
     set (map fst ps) = set (map fst qs) \<Longrightarrow>
     (\<forall>k v v'. map_of ps k = Some v \<longrightarrow> map_of qs k = Some v' \<longrightarrow> same_json v v') \<Longrightarrow>
     same_json (JObj ps) (JObj qs)"

code_pred same_json .

text \<open>\<^verbatim>\<open>textEncoder.encode(undefined)\<close> is the empty array.\<close>

definition encode_canonical :: "prims \<Rightarrow> json \<Rightarrow> bytes" where
  "encode_canonical P payload =
     (case stableStringify payload of None \<Rightarrow> textEncode P [] | Some s \<Rightarrow> textEncode P s)"

definition signPayload :: "prims \<Rightarrow> json \<Rightarrow> bytes \<Rightarrow> string" where
  "signPayload P payload privateKey =
     (let msg = encode_canonical P payload;
          signature = ed25519_sign P msg privateKey
      in toBase64 P signature)"

text \<open>\<^verbatim>\<open>verifyPayload\<close> catches nothing: it throws where \<^verbatim>\<open>ed25519.verify\<close> throws.\<close>

definition verifyPayload :: "prims \<Rightarrow> json \<Rightarrow> string \<Rightarrow> bytes \<Rightarrow> bool option" where
  "verifyPayload P payload signatureBase64 publicKey =
     (let msg = encode_canonical P payload;
          signature = fromBase64 P signatureBase64
      in ed25519_verify P signature msg publicKey)"

definition deriveDirectKey :: "prims \<Rightarrow> string \<Rightarrow> bytes \<Rightarrow> bytes \<Rightarrow> bytes" where
  "deriveDirectKey P conversationId localPrivateKey remotePublicKey =
     (let sharedSecret = x25519_getSharedSecret P localPrivateKey remotePublicKey;
          salt = sha256 P (textEncode P ''waku-chat'');
          info = textEncode P (''direct:'' @ conversationId)
      in hkdf_sha256 P sharedSecret salt info 32)"

definition deriveGroupKey :: "prims \<Rightarrow> string \<Rightarrow> bytes \<Rightarrow> bytes" where
  "deriveGroupKey P conversationId sharedKey =
     (let salt = sha256 P (textEncode P ''waku-chat'');
          info = textEncode P (''group:'' @ conversationId)
      in hkdf_sha256 P sharedKey salt info 32)"

text \<open>
  \<open>random\<close> is the value of \<^verbatim>\<open>ed25519.utils.randomPrivateKey()\<close> in this call.
\<close>

definition encryptPayload :: "prims \<Rightarrow> string \<Rightarrow> bytes \<Rightarrow> bytes \<Rightarrow> string \<times> string" where
  "encryptPayload P plaintext key random =
     (let nonce = take 24 random;
          ciphertext = xchacha20poly1305_encrypt P key nonce (textEncode P plaintext)
      in (toBase64 P nonce, toBase64 P ciphertext))"

definition decryptPayload :: "prims \<Rightarrow> string \<Rightarrow> string \<Rightarrow> bytes \<Rightarrow> string option" where
  "decryptPayload P ciphertextBase64 nonceBase64 key =
     (let nonce = fromBase64 P nonceBase64;
          ciphertext = fromBase64 P ciphertextBase64
      in map_option (textDecode P) (xchacha20poly1305_decrypt P key nonce ciphertext))"

definition sha256Base64 :: "prims \<Rightarrow> bytes \<Rightarrow> string" where
  "sha256Base64 P data = toBase64 P (sha256 P data)"

definition canonicalId :: "prims \<Rightarrow> string list \<Rightarrow> string" where
  "canonicalId P parts = sha256Base64 P (textEncode P (join ''|'' parts))"


subsection \<open>\<^verbatim>\<open>types.ts\<close>\<close>

datatype ConversationType = direct | group

record Identity =
  ident_id :: string
  ed25519PrivateKey :: bytes
  ed25519PublicKey :: bytes
  x25519PrivateKey :: bytes
  x25519PublicKey :: bytes

record Participant =
  part_id :: string
  part_ed25519PublicKey :: bytes
  part_x25519PublicKey :: bytes

record ConversationConfig =
  conv_id :: string
  conv_type :: ConversationType
  participants :: "Participant list"
  sharedKeyBase64 :: "string option"
  adminIds :: "string list option"

record ChatMessage =
  msg_id :: string
  msg_conversationId :: string
  msg_senderId :: string
  msg_text :: string
  msg_timestamp :: int
  revoked :: bool
  deleted :: bool

record Tombstone =
  targetMessageId :: string
  issuerId :: string
  ts_timestamp :: int

datatype ChatEvent = MessageEvent ChatMessage | TombstoneEvent Tombstone

subsection \<open>\<^verbatim>\<open>chatClient.ts\<close>: the wire envelope and the client's state\<close>

datatype WireType = chat | tombstone

record WireMessage =
  w_v :: int
  w_type :: WireType
  w_conversationId :: string
  w_messageId :: string
  w_senderId :: string
  w_senderEd25519 :: string
  w_senderX25519 :: string
  w_timestamp :: int
  w_nonce :: "string option"
  w_ciphertext :: "string option"
  w_targetMessageId :: "string option"
  w_signature :: string

text \<open>
  Every \<^verbatim>\<open>throw new Error(...)\<close> of the client is a constructor; \<open>Timeout\<close> is the
  rejection of \<^verbatim>\<open>withTimeout\<close>, \<open>VerifyThrew\<close> the error \<^verbatim>\<open>ed25519.verify\<close> throws.
\<close>

datatype error =
    ConversationNotFound string
  | MessageNotFound
  | NotAuthorized
  | GroupKeyRequired
  | RemoteRequired
  | NotInitialized
  | LightPushFailed
  | Timeout
  | VerifyThrew

text \<open>
  What \<^verbatim>\<open>withTimeout(node.lightPush.send(...), sendTimeoutMs)\<close> settles to: the result
  with its number of successes, or the timer first.
\<close>

datatype push_outcome = PushResult nat | PushTimeout

text \<open>
  A subscription handler is a callback of the caller; it is known by a number, and the
  calls made to handlers are recorded in \<open>delivered\<close>, in order. \<open>outbox\<close> records the
  envelopes handed to \<^verbatim>\<open>node.lightPush.send\<close>. \<open>waku\<close> says whether \<^verbatim>\<open>this.waku\<close> is
  set. The encoder, decoder and subscription-promise caches hold transport handles
  only and are left out.
\<close>

type_synonym handler = nat

record client =
  identity :: Identity
  waku :: bool
  conversations :: "string \<rightharpoonup> ConversationConfig"
  handlers :: "string \<rightharpoonup> handler list"
  messages :: "string \<rightharpoonup> ChatMessage"
  subscribed :: "string set"
  pendingTombstones :: "string \<rightharpoonup> Tombstone"
  delivered :: "(handler \<times> ChatEvent) list"
  outbox :: "(string \<times> WireMessage) list"

text \<open>The test \<^verbatim>\<open>!x\<close> on an optional string: \<^verbatim>\<open>undefined\<close> and the empty string.\<close>

definition falsy :: "string option \<Rightarrow> bool" where
  "falsy x = (case x of None \<Rightarrow> True | Some s \<Rightarrow> s = [])"

definition joinConversation :: "ConversationConfig \<Rightarrow> client \<Rightarrow> client" where
  "joinConversation config s = s\<lparr>conversations := (conversations s)(conv_id config \<mapsto> config)\<rparr>"


text \<open>
  \<^verbatim>\<open>subscribe\<close> without its call of the asynchronous \<^verbatim>\<open>ensureSubscribed\<close>, which talks to
  the transport and is the only writer of \<open>subscribed\<close>.
\<close>

definition subscribe :: "string \<Rightarrow> handler \<Rightarrow> client \<Rightarrow> client" where
  "subscribe conversationId h s =
     (let hs = (case handlers s conversationId of None \<Rightarrow> [] | Some hs \<Rightarrow> hs);
          hs' = (if h \<in> set hs then hs else hs @ [h])
      in s\<lparr>handlers := (handlers s)(conversationId \<mapsto> hs')\<rparr>)"


definition getMessage :: "string \<Rightarrow> client \<Rightarrow> ChatMessage option" where
  "getMessage messageId s = messages s messageId"

definition deleteMessage :: "string \<Rightarrow> client \<Rightarrow> client" where
  "deleteMessage messageId s =
     (case messages s messageId of
        None \<Rightarrow> s
      | Some message \<Rightarrow> s\<lparr>messages := (messages s)(messageId \<mapsto> message\<lparr>deleted := True\<rparr>)\<rparr>)"

definition getConversation :: "client \<Rightarrow> string \<Rightarrow> error + ConversationConfig" where
  "getConversation s conversationId =
     (case conversations s conversationId of
        None \<Rightarrow> Inl (ConversationNotFound conversationId)
      | Some conversation \<Rightarrow> Inr conversation)"

definition canRevoke :: "ConversationConfig \<Rightarrow> string \<Rightarrow> string \<Rightarrow> bool" where
  "canRevoke conversation issuer originalSenderId =
     (if issuer = originalSenderId then True
      else let admins = (case adminIds conversation of None \<Rightarrow> [] | Some a \<Rightarrow> a)
           in issuer \<in> set admins)"

definition deriveConversationKey :: "prims \<Rightarrow> Identity \<Rightarrow> ConversationConfig \<Rightarrow> error + bytes" where
  "deriveConversationKey P me conversation =
     (if conv_type conversation = group then
        (case sharedKeyBase64 conversation of
           None \<Rightarrow> Inl GroupKeyRequired
         | Some keyBase64 \<Rightarrow>
             if keyBase64 = [] then Inl GroupKeyRequired
             else Inr (deriveGroupKey P (conv_id conversation) (fromBase64 P keyBase64)))
      else
        (case find (\<lambda>p. part_id p \<noteq> ident_id me) (participants conversation) of
           None \<Rightarrow> Inl RemoteRequired
         | Some remote \<Rightarrow>
             Inr (deriveDirectKey P (conv_id conversation) (x25519PrivateKey me)
                    (part_x25519PublicKey remote))))"

definition emit :: "string \<Rightarrow> ChatEvent \<Rightarrow> client \<Rightarrow> client" where
  "emit conversationId event s =
     (case handlers s conversationId of
        None \<Rightarrow> s
      | Some hs \<Rightarrow> s\<lparr>delivered := delivered s @ map (\<lambda>h. (h, event)) hs\<rparr>)"

definition applyTombstone :: "string \<Rightarrow> Tombstone \<Rightarrow> client \<Rightarrow> client" where
  "applyTombstone conversationId tomb s =
     emit conversationId (TombstoneEvent tomb)
       (case messages s (targetMessageId tomb) of
          Some message \<Rightarrow>
            s\<lparr>messages := (messages s)(targetMessageId tomb \<mapsto> message\<lparr>revoked := True\<rparr>)\<rparr>
        | None \<Rightarrow>
            s\<lparr>pendingTombstones := (pendingTombstones s)(targetMessageId tomb \<mapsto> tomb)\<rparr>)"

definition publish :: "string \<Rightarrow> WireMessage \<Rightarrow> push_outcome \<Rightarrow> client \<Rightarrow> (error + unit) \<times> client" where
  "publish conversationId envelope push s =
     (if \<not> waku s then (Inl NotInitialized, s)
      else
        let s' = s\<lparr>outbox := outbox s @ [(conversationId, envelope)]\<rparr>
        in (case push of
              PushTimeout \<Rightarrow> (Inl Timeout, s')
            | PushResult successes \<Rightarrow>
                if successes = 0 then (Inl LightPushFailed, s') else (Inr (), s')))"

text \<open>
  The object literals \<^verbatim>\<open>envelopeBase\<close> of \<^verbatim>\<open>sendMessage\<close> and \<^verbatim>\<open>revokeMessage\<close> and the
  objects \<^verbatim>\<open>signaturePayload\<close> returns, with their properties in the order of the source.
\<close>

definition type_name :: "WireType \<Rightarrow> string" where
  "type_name t = (case t of chat \<Rightarrow> ''chat'' | tombstone \<Rightarrow> ''tombstone'')"

definition optional :: "string option \<Rightarrow> json" where
  "optional x = (case x of None \<Rightarrow> JUndefined | Some s \<Rightarrow> JStr s)"

definition signaturePayload :: "WireMessage \<Rightarrow> json" where
  "signaturePayload message =
     (if w_type message = tombstone then
        JObj [(''v'', JNum (w_v message)),
              (''type'', JStr (type_name (w_type message))),
              (''conversationId'', JStr (w_conversationId message)),
              (''messageId'', JStr (w_messageId message)),
              (''senderId'', JStr (w_senderId message)),
              (''senderEd25519'', JStr (w_senderEd25519 message)),
              (''senderX25519'', JStr (w_senderX25519 message)),
              (''timestamp'', JNum (w_timestamp message)),
              (''targetMessageId'', optional (w_targetMessageId message))]
      else
        JObj [(''v'', JNum (w_v message)),
              (''type'', JStr (type_name (w_type message))),
              (''conversationId'', JStr (w_conversationId message)),
              (''messageId'', JStr (w_messageId message)),
              (''senderId'', JStr (w_senderId message)),
              (''senderEd25519'', JStr (w_senderEd25519 message)),
              (''senderX25519'', JStr (w_senderX25519 message)),
              (''timestamp'', JNum (w_timestamp message)),
              (''nonce'', optional (w_nonce message)),
              (''ciphertext'', optional (w_ciphertext message))])"

text \<open>
  \<open>random\<close> is the random value drawn by \<^verbatim>\<open>encryptPayload\<close>, \<open>now\<close> the value of
  \<^verbatim>\<open>Date.now()\<close>, \<open>push\<close> what the transport does with the envelope. The state is
  returned with the error too: what was written before a \<^verbatim>\<open>throw\<close> stays written.
\<close>

definition sendMessage ::
  "prims \<Rightarrow> string \<Rightarrow> string \<Rightarrow> bytes \<Rightarrow> int \<Rightarrow> push_outcome \<Rightarrow> client \<Rightarrow> (error + string) \<times> client" where
  "sendMessage P conversationId plaintext random now push s =
     (case getConversation s conversationId of
        Inl e \<Rightarrow> (Inl e, s)
      | Inr conversation \<Rightarrow>
     (case deriveConversationKey P (identity s) conversation of
        Inl e \<Rightarrow> (Inl e, s)
      | Inr key \<Rightarrow>
          let (nonce, ciphertext) = encryptPayload P plaintext key random;
              timestamp = now;
              messageId = canonicalId P
                [conversationId, ident_id (identity s), nonce, ciphertext, show_int timestamp];
              envelopeBase = JObj
                [(''v'', JNum 1),
                 (''type'', JStr ''chat''),
                 (''conversationId'', JStr conversationId),
                 (''messageId'', JStr messageId),
                 (''senderId'', JStr (ident_id (identity s))),
                 (''senderEd25519'', JStr (toBase64 P (ed25519PublicKey (identity s)))),
                 (''senderX25519'', JStr (toBase64 P (x25519PublicKey (identity s)))),
                 (''timestamp'', JNum timestamp),
                 (''nonce'', JStr nonce),
                 (''ciphertext'', JStr ciphertext)];
              signature = signPayload P envelopeBase (ed25519PrivateKey (identity s));
              envelope = \<lparr>w_v = 1, w_type = chat, w_conversationId = conversationId,
                 w_messageId = messageId, w_senderId = ident_id (identity s),
                 w_senderEd25519 = toBase64 P (ed25519PublicKey (identity s)),
                 w_senderX25519 = toBase64 P (x25519PublicKey (identity s)),
                 w_timestamp = timestamp, w_nonce = Some nonce, w_ciphertext = Some ciphertext,
                 w_targetMessageId = None, w_signature = signature\<rparr>;
              message = \<lparr>msg_id = messageId, msg_conversationId = conversationId,
                 msg_senderId = ident_id (identity s), msg_text = plaintext,
                 msg_timestamp = timestamp, revoked = False, deleted = False\<rparr>;
              s1 = s\<lparr>messages := (messages s)(messageId \<mapsto> message)\<rparr>;
              s2 = emit conversationId (MessageEvent message) s1
          in (case publish conversationId envelope push s2 of
                (Inl e, s3) \<Rightarrow> (Inl e, s3)
              | (Inr _, s3) \<Rightarrow> (Inr messageId, s3))))"

definition revokeMessage ::
  "prims \<Rightarrow> string \<Rightarrow> string \<Rightarrow> int \<Rightarrow> push_outcome \<Rightarrow> client \<Rightarrow> (error + unit) \<times> client" where
  "revokeMessage P conversationId target now push s =
     (case getConversation s conversationId of
        Inl e \<Rightarrow> (Inl e, s)
      | Inr conversation \<Rightarrow>
     (let issuer = ident_id (identity s) in
      case messages s target of
        None \<Rightarrow> (Inl MessageNotFound, s)
      | Some message \<Rightarrow>
          if \<not> canRevoke conversation issuer (msg_senderId message) then (Inl NotAuthorized, s)
          else
            let timestamp = now;
                messageId = canonicalId P [conversationId, target, issuer, show_int timestamp];
                envelopeBase = JObj
                  [(''v'', JNum 1),
                   (''type'', JStr ''tombstone''),
                   (''conversationId'', JStr conversationId),
                   (''messageId'', JStr messageId),
                   (''senderId'', JStr issuer),
                   (''senderEd25519'', JStr (toBase64 P (ed25519PublicKey (identity s)))),
                   (''senderX25519'', JStr (toBase64 P (x25519PublicKey (identity s)))),
                   (''timestamp'', JNum timestamp),
                   (''targetMessageId'', JStr target)];
                signature = signPayload P envelopeBase (ed25519PrivateKey (identity s));
                envelope = \<lparr>w_v = 1, w_type = tombstone, w_conversationId = conversationId,
                   w_messageId = messageId, w_senderId = issuer,
                   w_senderEd25519 = toBase64 P (ed25519PublicKey (identity s)),
                   w_senderX25519 = toBase64 P (x25519PublicKey (identity s)),
                   w_timestamp = timestamp, w_nonce = None, w_ciphertext = None,
                   w_targetMessageId = Some target, w_signature = signature\<rparr>;
                s1 = applyTombstone conversationId
                       \<lparr>targetMessageId = target, issuerId = issuer, ts_timestamp = timestamp\<rparr> s
            in publish conversationId envelope push s1))"

text \<open>
  \<^verbatim>\<open>handleDecodedMessage\<close>. The argument is the decoded message's payload after
  \<^verbatim>\<open>JSON.parse(...) as WireMessage\<close>, \<open>None\<close> when the decoded message has no payload;
  the cast is not checked, and the envelope is taken here with the field types that
  \<^verbatim>\<open>WireMessage\<close> declares. The call of \<^verbatim>\<open>verifyPayload\<close> is outside the function's only
  \<^verbatim>\<open>try\<close>, so where it throws the handler's promise is rejected.
  The branch for \<^verbatim>\<open>parsed.type === "tombstone"\<close> and the rest of the function, for a
  chat envelope, are written as two functions.
\<close>

definition handleTombstone :: "string \<Rightarrow> WireMessage \<Rightarrow> client \<Rightarrow> (error + unit) \<times> client" where
  "handleTombstone conversationId parsed s =
     (case w_targetMessageId parsed of
        None \<Rightarrow> (Inr (), s)
      | Some target \<Rightarrow>
          if target = [] then (Inr (), s)
          else
            let tomb = \<lparr>targetMessageId = target, issuerId = w_senderId parsed,
                        ts_timestamp = w_timestamp parsed\<rparr>
            in (case getConversation s conversationId of
                  Inl e \<Rightarrow> (Inl e, s)
                | Inr conversation \<Rightarrow>
                    if canRevoke conversation (issuerId tomb)
                         (case messages s (targetMessageId tomb) of
                            None \<Rightarrow> []
                          | Some message \<Rightarrow> msg_senderId message)
                    then (Inr (), applyTombstone conversationId tomb s)
                    else (Inr (), s)))"

definition handleChat :: "prims \<Rightarrow> string \<Rightarrow> WireMessage \<Rightarrow> client \<Rightarrow> (error + unit) \<times> client" where
  "handleChat P conversationId parsed s =
     (if falsy (w_ciphertext parsed) \<or> falsy (w_nonce parsed) then (Inr (), s)
      else
        case getConversation s conversationId of
          Inl e \<Rightarrow> (Inl e, s)
        | Inr conversation \<Rightarrow>
        (case deriveConversationKey P (identity s) conversation of
           Inl e \<Rightarrow> (Inl e, s)
         | Inr key \<Rightarrow>
           (case decryptPayload P (case w_ciphertext parsed of None \<Rightarrow> [] | Some c \<Rightarrow> c)
                   (case w_nonce parsed of None \<Rightarrow> [] | Some n \<Rightarrow> n) key of
              None \<Rightarrow> (Inr (), s)
            | Some plain \<Rightarrow>
                let chatMessage = \<lparr>msg_id = w_messageId parsed,
                      msg_conversationId = conversationId, msg_senderId = w_senderId parsed,
                      msg_text = plain, msg_timestamp = w_timestamp parsed,
                      revoked = False, deleted = False\<rparr>
                in if messages s (msg_id chatMessage) = None then
                     let chatMessage' =
                           (case pendingTombstones s (msg_id chatMessage) of
                              Some tomb \<Rightarrow> chatMessage\<lparr>revoked := True\<rparr>
                            | None \<Rightarrow> chatMessage);
                         s1 = s\<lparr>messages := (messages s)(msg_id chatMessage \<mapsto> chatMessage')\<rparr>
                     in (Inr (), emit conversationId (MessageEvent chatMessage') s1)
                   else (Inr (), s))))"

definition handleDecodedMessage ::
  "prims \<Rightarrow> string \<Rightarrow> WireMessage option \<Rightarrow> client \<Rightarrow> (error + unit) \<times> client" where
  "handleDecodedMessage P conversationId payload s =
     (case payload of
        None \<Rightarrow> (Inr (), s)
      | Some parsed \<Rightarrow>
          if w_conversationId parsed \<noteq> conversationId then (Inr (), s)
          else
            let senderPublicKey = fromBase64 P (w_senderEd25519 parsed)
            in (case verifyPayload P (signaturePayload parsed) (w_signature parsed)
                       senderPublicKey of
                  None \<Rightarrow> (Inl VerifyThrew, s)
                | Some signatureValid \<Rightarrow>
                    if \<not> signatureValid then (Inr (), s)
                    else if w_type parsed = tombstone
                    then handleTombstone conversationId parsed s
                    else handleChat P conversationId parsed s))"

subsection \<open>Sequences of calls on one client\<close>




subsection \<open>A concrete instance\<close>

text \<open>
  Stand-ins for the library functions, on which the client can be evaluated: a
  signature is the key followed by the first 32 bytes of the message, filled up with
  zeros, and a public key is its private key; verification throws on a signature that
  is not 64 bytes long and on a key that is not 32 bytes long, as the library does; a
  ciphertext is the key followed by the plaintext; the encodings map a character to
  the byte of the same code.
\<close>

definition toy_prims :: prims where
  "toy_prims =
     \<lparr>ed25519_sign = (\<lambda>msg privateKey. privateKey @ take 32 (msg @ replicate 32 0)),
      ed25519_verify = (\<lambda>signature msg publicKey.
         if length signature = 64 \<and> length publicKey = 32
         then Some (signature = publicKey @ take 32 (msg @ replicate 32 0))
         else None),
      x25519_getSharedSecret = (\<lambda>privateKey publicKey. map2 (+) privateKey publicKey),
      sha256 = (\<lambda>data. [sum_list data]),
      hkdf_sha256 = (\<lambda>ikm salt info len. take len (ikm @ info @ salt @ replicate len 0)),
      xchacha20poly1305_encrypt = (\<lambda>key nonce plaintext. key @ plaintext),
      xchacha20poly1305_decrypt = (\<lambda>key nonce ciphertext.
         if take (length key) ciphertext = key then Some (drop (length key) ciphertext)
         else None),
      toBase64 = map (\<lambda>b. char_of (unat b)),
      fromBase64 = map of_char,
      textEncode = map of_char,
      textDecode = map (\<lambda>b. char_of (unat b))\<rparr>"

definition alice :: Identity where
  "alice = \<lparr>ident_id = ''alice'', ed25519PrivateKey = replicate 32 1,
     ed25519PublicKey = replicate 32 1, x25519PrivateKey = [1, 2],
     x25519PublicKey = [1, 2]\<rparr>"

definition bob :: Identity where
  "bob = \<lparr>ident_id = ''bob'', ed25519PrivateKey = replicate 32 2,
     ed25519PublicKey = replicate 32 2, x25519PrivateKey = [3, 4],
     x25519PublicKey = [3, 4]\<rparr>"

definition carol :: Identity where
  "carol = \<lparr>ident_id = ''carol'', ed25519PrivateKey = replicate 32 3,
     ed25519PublicKey = replicate 32 3, x25519PrivateKey = [5, 6],
     x25519PublicKey = [5, 6]\<rparr>"

definition participant :: "Identity \<Rightarrow> Participant" where
  "participant i = \<lparr>part_id = ident_id i, part_ed25519PublicKey = ed25519PublicKey i,
     part_x25519PublicKey = x25519PublicKey i\<rparr>"

text \<open>The direct conversation of alice and bob, and a group that alice administers.\<close>

definition direct_ab :: ConversationConfig where
  "direct_ab = \<lparr>conv_id = ''c1'', conv_type = direct,
     participants = [participant alice, participant bob],
     sharedKeyBase64 = None, adminIds = None\<rparr>"

definition group_abc :: ConversationConfig where
  "group_abc = \<lparr>conv_id = ''g1'', conv_type = group,
     participants = [participant alice, participant bob, participant carol],
     sharedKeyBase64 = Some ''k'', adminIds = Some [''alice'']\<rparr>"

definition new_client :: "Identity \<Rightarrow> client" where
  "new_client i = \<lparr>identity = i, waku = True, conversations = Map.empty,
     handlers = Map.empty, messages = Map.empty, subscribed = {},
     pendingTombstones = Map.empty, delivered = [], outbox = []\<rparr>"

text \<open>A client that has joined both conversations and listens to both with handler 0.\<close>

definition joined :: "Identity \<Rightarrow> client" where
  "joined i =
     subscribe ''g1'' 0 (subscribe ''c1'' 0
       (joinConversation group_abc (joinConversation direct_ab (new_client i))))"

text \<open>A message of bob in the group, and a client that has it in its store.\<close>

definition bob_message :: ChatMessage where
  "bob_message = \<lparr>msg_id = ''m1'', msg_conversationId = ''g1'', msg_senderId = ''bob'',
     msg_text = ''hello group'', msg_timestamp = 1000, revoked = False, deleted = False\<rparr>"

definition holding :: "Identity \<Rightarrow> client" where
  "holding i = (joined i)\<lparr>messages := [''m1'' \<mapsto> bob_message]\<rparr>"

text \<open>An envelope signed as \<^verbatim>\<open>sendMessage\<close> and \<^verbatim>\<open>revokeMessage\<close> sign theirs.\<close>

definition sign_envelope :: "prims \<Rightarrow> bytes \<Rightarrow> WireMessage \<Rightarrow> WireMessage" where
  "sign_envelope P privateKey w =
     w\<lparr>w_signature := signPayload P (signaturePayload w) privateKey\<rparr>"

text \<open>
  A chat envelope and a tombstone envelope as a sender with these stand-ins builds
  them: the plaintext encrypted under the conversation key, the signable fields signed
  with the sender's key.
\<close>

definition toy_chat :: "Identity \<Rightarrow> string \<Rightarrow> bytes \<Rightarrow> string \<Rightarrow> string \<Rightarrow> WireMessage" where
  "toy_chat sender conversationId key messageId plaintext =
     (let (nonce, ciphertext) = encryptPayload toy_prims plaintext key [7, 7, 7]
      in sign_envelope toy_prims (ed25519PrivateKey sender)
           \<lparr>w_v = 1, w_type = chat, w_conversationId = conversationId,
            w_messageId = messageId, w_senderId = ident_id sender,
            w_senderEd25519 = toBase64 toy_prims (ed25519PublicKey sender),
            w_senderX25519 = toBase64 toy_prims (x25519PublicKey sender),
            w_timestamp = 1000, w_nonce = Some nonce, w_ciphertext = Some ciphertext,
            w_targetMessageId = None, w_signature = []\<rparr>)"


text \<open>
  Alice's chat message \<open>m1\<close> in the direct conversation and bob's chat message \<open>m1\<close>
  in the group.
\<close>

definition alice_chat :: WireMessage where
  "alice_chat =
     toy_chat alice ''c1''
       (deriveDirectKey toy_prims ''c1'' (x25519PrivateKey alice) (x25519PublicKey bob))
       ''m1'' ''hi''"


text \<open>
  Two objects whose canonical serializations coincide although the property \<open>a\<close>
  differs: the key of the second inner object contains double quotes.
\<close>

definition keyed :: json where
  "keyed = JObj [(''a'', JObj [(''x'', JNum 1), (''y'', JNum 2)])]"

definition keyed' :: json where
  "keyed' = JObj [(''a'', JObj [(''x'' @ [CHR 0x22] @ '':1,'' @ [CHR 0x22] @ ''y'', JNum 2)])]"

text \<open>
  An object and the same object with its properties inserted in another order, at both
  levels.
\<close>

definition ordered :: json where
  "ordered = JObj [(''a'', JNum 1), (''b'', JObj [(''x'', JStr ''p''), (''y'', JNull)])]"

definition reordered :: json where
  "reordered = JObj [(''b'', JObj [(''y'', JNull), (''x'', JStr ''p'')]), (''a'', JNum 1)]"

section \<open>Properties\<close>

subsection \<open>What each step leaves alone\<close>

lemma emit_frame:
  "messages (emit c e s) = messages s"
  "pendingTombstones (emit c e s) = pendingTombstones s"
  "conversations (emit c e s) = conversations s"
  "handlers (emit c e s) = handlers s"
  "identity (emit c e s) = identity s"
  "waku (emit c e s) = waku s"
  "outbox (emit c e s) = outbox s"
  by (simp_all add: emit_def split: option.splits)

lemma emit_delivered:
  "delivered (emit c e s) =
     delivered s @ map (\<lambda>h. (h, e)) (case handlers s c of None \<Rightarrow> [] | Some hs \<Rightarrow> hs)"
  by (simp add: emit_def split: option.splits)

lemma publish_frame:
  "messages (snd (publish c env push s)) = messages s"
  "pendingTombstones (snd (publish c env push s)) = pendingTombstones s"
  "delivered (snd (publish c env push s)) = delivered s"
  by (simp_all add: publish_def Let_def split: push_outcome.splits)

lemma publish_result:
  "waku s \<Longrightarrow> fst (publish c env push s) =
     (case push of PushTimeout \<Rightarrow> Inl Timeout
      | PushResult n \<Rightarrow> if n = 0 then Inl LightPushFailed else Inr ())"
  "waku s \<Longrightarrow> outbox (snd (publish c env push s)) = outbox s @ [(c, env)]"
  by (simp_all add: publish_def Let_def split: push_outcome.splits)

lemma applyTombstone_messages:
  "messages (applyTombstone c t s) =
     (case messages s (targetMessageId t) of
        None \<Rightarrow> messages s
      | Some m \<Rightarrow> (messages s)(targetMessageId t \<mapsto> m\<lparr>revoked := True\<rparr>))"
  by (simp add: applyTombstone_def emit_frame split: option.splits)

lemma applyTombstone_pending:
  "pendingTombstones (applyTombstone c t s) =
     (case messages s (targetMessageId t) of
        None \<Rightarrow> (pendingTombstones s)(targetMessageId t \<mapsto> t)
      | Some m \<Rightarrow> pendingTombstones s)"
  by (simp add: applyTombstone_def emit_frame split: option.splits)

subsection \<open>The concrete instance\<close>

lemma toy_base64 [simp]:
  "map of_char (map (\<lambda>b. char_of (unat b)) bs) = (bs :: bytes)"
  "map (of_char \<circ> (\<lambda>b. char_of (unat b))) bs = (bs :: bytes)"
proof -
  have "of_char (char_of (unat b)) = b" for b :: "8 word"
  proof -
    have "unat b < 256" using unsigned_less [of b] by simp
    then have n: "(of_char (char_of (unat b)) :: nat) = unat b" by simp
    have "(of_char (char_of (unat b)) :: 8 word) = of_nat (of_char (char_of (unat b)) :: nat)"
      by (simp only: of_nat_of_char)
    also have "\<dots> = of_nat (unat b)" by (simp only: n)
    also have "\<dots> = b" by simp
    finally show ?thesis .
  qed
  then show "map of_char (map (\<lambda>b. char_of (unat b)) bs) = bs"
    and "map (of_char \<circ> (\<lambda>b. char_of (unat b))) bs = bs"
    by (simp_all add: map_idI)
qed

lemma signaturePayload_signature [simp]:
  "signaturePayload (w\<lparr>w_signature := x\<rparr>) = signaturePayload w"
  by (simp add: signaturePayload_def)

lemma toy_base64_roundtrip: "fromBase64 toy_prims (toBase64 toy_prims b) = b"
  by (simp add: toy_prims_def)

lemma toy_sign_verify:
  "length k = 32 \<Longrightarrow>
   ed25519_verify toy_prims (ed25519_sign toy_prims m k) m k = Some True"
  by (simp add: toy_prims_def)


lemma joined_fields:
  "conversations (joined i) ''c1'' = Some direct_ab"
  "conversations (joined i) ''g1'' = Some group_abc"
  "handlers (joined i) ''c1'' = Some [0]"
  "handlers (joined i) ''g1'' = Some [0]"
  "messages (joined i) = Map.empty"
  "pendingTombstones (joined i) = Map.empty"
  "identity (joined i) = i"
  "waku (joined i)"
  "delivered (joined i) = []"
  "outbox (joined i) = []"
  by (simp_all add: joined_def subscribe_def joinConversation_def new_client_def
      direct_ab_def group_abc_def)

lemma holding_fields:
  "conversations (holding i) = conversations (joined i)"
  "handlers (holding i) = handlers (joined i)"
  "messages (holding i) ''m1'' = Some bob_message"
  "pendingTombstones (holding i) = Map.empty"
  "identity (holding i) = i"
  "waku (holding i)"
  by (simp_all add: holding_def joined_fields)

lemma toy_text [simp]:
  "map (\<lambda>b. char_of (unat b)) (map of_char s :: bytes) = s"
  "map ((\<lambda>b. char_of (unat b)) \<circ> (of_char :: char \<Rightarrow> 8 word)) s = s"
proof -
  have "char_of (unat (of_char c :: 8 word)) = c" for c :: char
  proof -
    have "(of_char c :: 8 word) = of_nat (of_char c :: nat)"
      by (simp only: of_nat_of_char)
    moreover have "(of_char c :: nat) < 2 ^ LENGTH(8)"
      by simp
    ultimately have "unat (of_char c :: 8 word) = (of_char c :: nat)"
      by (simp add: unat_of_nat)
    then show ?thesis by simp
  qed
  then show "map (\<lambda>b. char_of (unat b)) (map of_char s :: bytes) = s"
    and "map ((\<lambda>b. char_of (unat b)) \<circ> (of_char :: char \<Rightarrow> 8 word)) s = s"
    by (simp_all add: comp_def)
qed

lemma toy_keys:
  "ed25519PublicKey alice = ed25519PrivateKey alice"
  "ed25519PublicKey bob = ed25519PrivateKey bob"
  "ed25519PublicKey carol = ed25519PrivateKey carol"
  "length (ed25519PrivateKey alice) = 32"
  "length (ed25519PrivateKey bob) = 32"
  "length (ed25519PrivateKey carol) = 32"
  by (simp_all add: alice_def bob_def carol_def)




lemma toy_chat_fields:
  "w_type (toy_chat i c key mid plain) = chat"
  "w_conversationId (toy_chat i c key mid plain) = c"
  "w_messageId (toy_chat i c key mid plain) = mid"
  "w_senderId (toy_chat i c key mid plain) = ident_id i"
  "w_timestamp (toy_chat i c key mid plain) = 1000"
  by (simp_all add: toy_chat_def sign_envelope_def Let_def split: prod.splits)







subsection \<open>Pending tombstones and arriving messages\<close>


lemma invalid_signature_dropped:
  "verifyPayload P (signaturePayload parsed) (w_signature parsed)
     (fromBase64 P (w_senderEd25519 parsed)) = Some False \<Longrightarrow>
   handleDecodedMessage P c (Some parsed) s = (Inr (), s)"
  by (simp add: handleDecodedMessage_def)

lemma verify_throw_propagates:
  "w_conversationId parsed = c \<Longrightarrow>
   verifyPayload P (signaturePayload parsed) (w_signature parsed)
     (fromBase64 P (w_senderEd25519 parsed)) = None \<Longrightarrow>
   handleDecodedMessage P c (Some parsed) s = (Inl VerifyThrew, s)"
  by (simp add: handleDecodedMessage_def)














subsection \<open>The canonical serialization\<close>

lemma digit_char_is_digit: "d < 10 \<Longrightarrow> is_digit (digit_char d)"
  by (simp add: is_digit_def digit_char_def)

lemma digit_char_value: "d < 10 \<Longrightarrow> (of_char (digit_char d) :: nat) - 48 = d"
  by (simp add: digit_char_def)

lemma show_nat_digits: "\<forall>c \<in> set (show_nat n). is_digit c"
proof (induction n rule: show_nat.induct)
  case (1 n)
  show ?case
  proof (cases "n < 10")
    case True
    then show ?thesis
      by (subst show_nat.simps) (simp add: digit_char_is_digit)
  next
    case False
    then show ?thesis
      using 1 by (subst show_nat.simps) (simp add: digit_char_is_digit)
  qed
qed

lemma show_nat_value:
  "foldl (\<lambda>a c. 10 * a + ((of_char c :: nat) - 48)) 0 (show_nat n) = n"
proof (induction n rule: show_nat.induct)
  case (1 n)
  show ?case
  proof (cases "n < 10")
    case True
    then show ?thesis
      by (subst show_nat.simps) (simp add: digit_char_value)
  next
    case False
    then show ?thesis
      using 1 by (subst show_nat.simps) (simp add: digit_char_value)
  qed
qed

lemma show_nat_inj: "show_nat n = show_nat m \<Longrightarrow> n = m"
  by (metis show_nat_value)

lemma show_nat_nonempty: "show_nat n \<noteq> []"
  by (subst show_nat.simps) simp

lemma digits_then_delimiter:
  assumes "\<forall>c \<in> set xs. is_digit c" and "\<forall>c \<in> set ys. is_digit c"
      and "\<not> is_digit d" and "\<not> is_digit d'"
      and "xs @ d # r = ys @ d' # r'"
  shows "xs = ys \<and> d = d' \<and> r = r'"
  using assms
proof (induction xs arbitrary: ys)
  case Nil
  then show ?case by (cases ys) auto
next
  case (Cons x xs)
  then show ?case by (cases ys) auto
qed

lemma show_int_delimited:
  assumes "\<not> is_digit d" and "\<not> is_digit d'" and "d \<noteq> CHR ''-''" and "d' \<noteq> CHR ''-''"
      and "show_int a @ d # r = show_int b @ d' # r'"
  shows "a = b \<and> d = d' \<and> r = r'"
proof -
  have minus: "\<not> is_digit CHR ''-''" by (simp add: is_digit_def)
  have head: "\<exists>c cs. show_nat n = c # cs \<and> is_digit c" for n
    using show_nat_digits [of n] show_nat_nonempty [of n] by (cases "show_nat n") auto
  consider "a < 0" "b < 0" | "0 \<le> a" "0 \<le> b" | "a < 0" "0 \<le> b" | "0 \<le> a" "b < 0"
    by linarith
  then show ?thesis
  proof cases
    case 1
    then have "show_nat (nat (- a)) @ d # r = show_nat (nat (- b)) @ d' # r'"
      using assms(5) by (simp add: show_int_def)
    then have "show_nat (nat (- a)) = show_nat (nat (- b)) \<and> d = d' \<and> r = r'"
      using digits_then_delimiter show_nat_digits assms(1,2) by blast
    then show ?thesis using 1 show_nat_inj [of "nat (- a)" "nat (- b)"] by auto
  next
    case 2
    then have "show_nat (nat a) @ d # r = show_nat (nat b) @ d' # r'"
      using assms(5) by (simp add: show_int_def)
    then have "show_nat (nat a) = show_nat (nat b) \<and> d = d' \<and> r = r'"
      using digits_then_delimiter show_nat_digits assms(1,2) by blast
    then show ?thesis using 2 show_nat_inj [of "nat a" "nat b"] by auto
  next
    case 3
    then have "CHR ''-'' # show_nat (nat (- a)) @ d # r = show_nat (nat b) @ d' # r'"
      using assms(5) by (simp add: show_int_def)
    then show ?thesis using head [of "nat b"] minus by auto
  next
    case 4
    then have "show_nat (nat a) @ d # r = CHR ''-'' # show_nat (nat (- b)) @ d' # r'"
      using assms(5) by (simp add: show_int_def)
    then show ?thesis using head [of "nat a"] minus by auto
  qed
qed

lemma show_int_cancel [simp]:
  "show_int a @ CHR '','' # r = show_int b @ CHR '','' # r' \<longleftrightarrow> a = b \<and> r = r'"
  "show_int a @ CHR ''}'' # r = show_int b @ CHR ''}'' # r' \<longleftrightarrow> a = b \<and> r = r'"
  using show_int_delimited [of "CHR '',''" "CHR '',''" a r b r']
    show_int_delimited [of "CHR ''}''" "CHR ''}''" a r b r']
  by (auto simp: is_digit_def)

lemma hex_char_inj: "a < 16 \<Longrightarrow> b < 16 \<Longrightarrow> hex_char a = hex_char b \<Longrightarrow> a = b"
proof -
  assume a: "a < 16" and b: "b < 16" and eq: "hex_char a = hex_char b"
  have v: "(of_char (hex_char d) :: nat) = (if d < 10 then 48 + d else 87 + d)" if "d < 16" for d
    using that by (simp add: hex_char_def)
  from eq have "(of_char (hex_char a) :: nat) = of_char (hex_char b)" by simp
  then show "a = b" using v [OF a] v [OF b] by (auto split: if_splits)
qed

lemma json_escape_head: "\<exists>c' cs. json_escape c = c' # cs \<and> c' \<noteq> CHR 0x22"
  by (simp add: json_escape_def)

lemma control_char_split:
  assumes "(of_char c :: nat) div 16 = of_char c' div 16"
      and "(of_char c :: nat) mod 16 = of_char c' mod 16"
  shows "c = c'"
proof -
  have "(of_char c :: nat) = of_char c'"
    using assms by (metis div_mult_mod_eq)
  then show ?thesis by simp
qed

lemma json_escape_prefix:
  assumes "json_escape c @ r = json_escape c' @ r'"
  shows "c = c' \<and> r = r'"
proof -
  have h: "hex_char ((of_char c :: nat) div 16) = hex_char (of_char c' div 16) \<Longrightarrow>
           hex_char ((of_char c :: nat) mod 16) = hex_char (of_char c' mod 16) \<Longrightarrow>
           (of_char c :: nat) < 32 \<Longrightarrow> (of_char c' :: nat) < 32 \<Longrightarrow> c = c'"
  proof -
    assume 1: "hex_char ((of_char c :: nat) div 16) = hex_char (of_char c' div 16)"
       and 2: "hex_char ((of_char c :: nat) mod 16) = hex_char (of_char c' mod 16)"
       and 3: "(of_char c :: nat) < 32" and 4: "(of_char c' :: nat) < 32"
    have "(of_char c :: nat) div 16 = of_char c' div 16"
      using 1 3 4 by (intro hex_char_inj) auto
    moreover have "(of_char c :: nat) mod 16 = of_char c' mod 16"
      using 2 by (intro hex_char_inj) auto
    ultimately show "c = c'" by (rule control_char_split)
  qed
  show ?thesis
    using assms h
    by (auto simp: json_escape_def split: if_splits)
qed

lemma escaped_then_quote:
  "concat (map json_escape s) @ CHR 0x22 # r = concat (map json_escape s') @ CHR 0x22 # r' \<Longrightarrow>
   s = s' \<and> r = r'"
proof (induction s arbitrary: s')
  case Nil
  show ?case
  proof (cases s')
    case Nil
    with Nil.prems show ?thesis by simp
  next
    case (Cons c' t')
    obtain x xs where "json_escape c' = x # xs" "x \<noteq> CHR 0x22"
      using json_escape_head by blast
    with Nil.prems Cons show ?thesis by simp
  qed
next
  case (Cons c t)
  show ?case
  proof (cases s')
    case Nil
    obtain x xs where "json_escape c = x # xs" "x \<noteq> CHR 0x22"
      using json_escape_head by blast
    with Cons.prems Nil show ?thesis by simp
  next
    case (Cons c' t')
    with Cons.prems have
      "json_escape c @ (concat (map json_escape t) @ CHR 0x22 # r) =
       json_escape c' @ (concat (map json_escape t') @ CHR 0x22 # r')"
      by simp
    then have "c = c'" and
      "concat (map json_escape t) @ CHR 0x22 # r = concat (map json_escape t') @ CHR 0x22 # r'"
      using json_escape_prefix by blast+
    with Cons.IH Cons show ?thesis by blast
  qed
qed

lemma quoteJSONString_cancel [simp]:
  "quoteJSONString s @ r = quoteJSONString s' @ r' \<longleftrightarrow> s = s' \<and> r = r'"
  using escaped_then_quote [of s r s' r'] by (auto simp: quoteJSONString_def)

lemma quoteJSONString_head: "quoteJSONString s = CHR 0x22 # concat (map json_escape s) @ [CHR 0x22]"
  by (simp add: quoteJSONString_def)

lemma template_optional_cancel [simp]:
  "template (stableStringify (optional x)) @ r = template (stableStringify (optional x')) @ r' \<longleftrightarrow>
     x = x' \<and> r = r'"
  by (cases x; cases x')
     (auto simp: template_def optional_def quoteJSONString_head dest: escaped_then_quote)

lemma show_int_inj [simp]: "show_int a = show_int b \<longleftrightarrow> a = b"
  using show_int_cancel(1) [of a "[]" b "[]"] by auto

lemma template_Some [simp]: "template (Some s) = s"
  by (simp add: template_def)

text \<open>
  On an envelope whose fields have the types \<^verbatim>\<open>WireMessage\<close> declares, strings and
  integers, the canonical serialization determines every signable field. It says
  nothing about a parsed value in which a field is an object or an array.
\<close>

lemma canonical_envelope_injective:
  assumes "stableStringify (signaturePayload w) = stableStringify (signaturePayload w')"
  shows "signaturePayload w = signaturePayload w'"
proof -
  have t: "type_name a = type_name b \<longleftrightarrow> a = b" for a b
    by (cases a; cases b) (simp_all add: type_name_def)
  show ?thesis
    using assms
    by (simp add: signaturePayload_def t split: if_splits)
qed

lemma sorted_keys_unique:
  assumes "distinct (xs :: string list)" and "distinct ys" and "set xs = set ys"
  shows "sort xs = sort ys"
  using assms by (intro sorted_distinct_set_unique) simp_all

lemma map_of_defined:
  "k \<in> set (map fst ps) \<Longrightarrow> \<exists>v. map_of ps k = Some v"
  by (cases "map_of ps k") (auto simp: map_of_eq_None_iff)

lemma same_json_canonical: "same_json p q \<Longrightarrow> stableStringify p = stableStringify q"
proof (induction rule: same_json.induct)
  case (same_value v)
  show ?case by (rule refl)
next
  case (same_array xs ys)
  then have "map (\<lambda>item. join_item (stableStringify item)) xs =
      map (\<lambda>item. join_item (stableStringify item)) ys"
    by (induction rule: list_all2_induct) simp_all
  then show ?case by (simp only: stableStringify.simps)
next
  case (same_object ps qs)
  define f where "f props key = [CHR 0x22] @ key @ [CHR 0x22] @ '':'' @
      template (case map_of props key of None \<Rightarrow> None | Some v \<Rightarrow> stableStringify v)"
    for props :: "(string \<times> json) list" and key
  have ss: "stableStringify (JObj props) =
      Some (''{'' @ join '','' (map (f props) (sort (map fst props))) @ ''}'')" for props
  proof -
    have "f props = (\<lambda>key. [CHR 0x22] @ key @ [CHR 0x22] @ '':'' @
      template (case map_of props key of None \<Rightarrow> None | Some v \<Rightarrow> stableStringify v))"
      by (rule ext) (simp only: f_def)
    then show ?thesis by (simp only: stableStringify.simps)
  qed
  have keys: "sort (map fst ps) = sort (map fst qs)"
    using same_object(1-3) by (rule sorted_keys_unique)
  have "f ps k = f qs k" if "k \<in> set (sort (map fst ps))" for k
  proof -
    from that have k: "k \<in> set (map fst ps)" by simp
    from map_of_defined [OF k] obtain v where v: "map_of ps k = Some v"
      by blast
    from k same_object(3) have k': "k \<in> set (map fst qs)"
      by (simp only:)
    from map_of_defined [OF k'] obtain v' where v': "map_of qs k = Some v'"
      by blast
    from same_object(4) v v' have "stableStringify v = stableStringify v'" by blast
    with v v' show ?thesis by (simp only: f_def option.case)
  qed
  then have "map (f ps) (sort (map fst ps)) = map (f qs) (sort (map fst ps))"
    by (rule map_cong [OF refl])
  then show ?case
    by (simp only: ss keys)
qed

lemma verifyPayload_canonical:
  "stableStringify p = stableStringify q \<Longrightarrow>
   verifyPayload P p signature publicKey = verifyPayload P q signature publicKey"
  by (simp add: verifyPayload_def encode_canonical_def)

lemma signPayload_canonical:
  "stableStringify p = stableStringify q \<Longrightarrow> signPayload P p sk = signPayload P q sk"
  by (simp add: signPayload_def encode_canonical_def)

lemma verify_sign:
  "verifyPayload P q (signPayload P p sk) pk =
     ed25519_verify P (fromBase64 P (toBase64 P (ed25519_sign P (encode_canonical P p) sk)))
       (encode_canonical P q) pk"
  by (simp add: verifyPayload_def signPayload_def Let_def)

lemma envelope_canonical_Some:
  "\<exists>s. stableStringify (signaturePayload w) = Some s"
  by (simp add: signaturePayload_def)

lemma show_int_small: "show_int 1 = ''1''" "show_int 2 = ''2''"
  by code_simp+

lemma verify_own_signature:
  assumes "\<forall>m. ed25519_verify P (ed25519_sign P m sk) m pk = Some True"
      and "\<forall>b. fromBase64 P (toBase64 P b) = b"
  shows "verifyPayload P payload (signPayload P payload sk) pk = Some True"
  using assms by (simp add: verify_sign)

lemma same_json_signed_alike:
  assumes "same_json payload payload'"
  shows "signPayload P payload' sk = signPayload P payload sk"
    and "verifyPayload P payload' signature publicKey =
           verifyPayload P payload signature publicKey"
proof -
  have c: "stableStringify payload' = stableStringify payload"
    using assms same_json_canonical by fastforce
  show "signPayload P payload' sk = signPayload P payload sk"
    using c by (rule signPayload_canonical)
  show "verifyPayload P payload' signature publicKey =
      verifyPayload P payload signature publicKey"
    using c by (rule verifyPayload_canonical)
qed

lemma reordered_same: "same_json ordered reordered"
proof -
  have inner: "same_json (JObj [(''x'', JStr ''p''), (''y'', JNull)])
      (JObj [(''y'', JNull), (''x'', JStr ''p'')])"
    by (rule same_object) (auto intro: same_value split: if_splits)
  show ?thesis
    unfolding ordered_def reordered_def
    using inner by (intro same_object) (auto intro: same_value split: if_splits)
qed

subsection \<open>Key derivation\<close>

text \<open>
  \<^verbatim>\<open>deriveDirectKey\<close> passes the shared secret, a fixed salt and the conversation
  identifier to the key derivation function. The two parties derive the same key when
  the key agreement gives them the same secret. A derivation function that returns the
  requested 32 bytes cannot give a different key to every conversation identifier;
  that two identifiers met in practice have different keys is its collision
  resistance.
\<close>

lemma deriveDirectKey_agreement:
  "x25519_getSharedSecret P skA pkB = x25519_getSharedSecret P skB pkA \<Longrightarrow>
   deriveDirectKey P c skA pkB = deriveDirectKey P c skB pkA"
  by (simp add: deriveDirectKey_def)

lemma deriveDirectKey_length:
  "\<forall>ikm salt info len. length (hkdf_sha256 P ikm salt info len) = len \<Longrightarrow>
   length (deriveDirectKey P c sk pk) = 32"
  by (simp add: deriveDirectKey_def Let_def)

lemma deriveDirectKey_collision:
  assumes "\<forall>ikm salt info len. length (hkdf_sha256 P ikm salt info len) = len"
  shows "\<exists>c c'. c \<noteq> c' \<and> deriveDirectKey P c sk pk = deriveDirectKey P c' sk pk"
proof (rule ccontr)
  assume "\<not> ?thesis"
  then have inj: "inj (\<lambda>c. deriveDirectKey P c sk pk)"
    by (auto simp: inj_def)
  have "range (\<lambda>c. deriveDirectKey P c sk pk) \<subseteq> {xs :: bytes. length xs = 32}"
    using deriveDirectKey_length [OF assms] by auto
  moreover have "finite {xs :: bytes. length xs = 32}"
    using finite_lists_length_eq [of "UNIV :: 8 word set" 32] by simp
  ultimately have "finite (range (\<lambda>c. deriveDirectKey P c sk pk))"
    by (rule finite_subset)
  then have "finite (UNIV :: string set)"
    using inj by (rule finite_imageD)
  then show False
    using infinite_UNIV_listI by blast
qed

subsection \<open>Revocation by the local user\<close>

text \<open>
  C3. When the conversation is joined and the target message is stored,
  \<^verbatim>\<open>revokeMessage\<close> by an issuer who is neither the message's sender nor in the
  conversation's admin list fails with the authorization error and returns the state it
  was given: no message changes, the target's \<open>revoked\<close> flag included, and nothing is
  handed to the transport. Whenever the call succeeds, the issuer is the sender or is
  in the admin list.
\<close>

theorem revokeMessage_requires_authorization:
  assumes "conversations s c = Some conversation"
      and "messages s target = Some message"
  shows "(\<not> (ident_id (identity s) = msg_senderId message \<or>
             ident_id (identity s) \<in>
               set (case adminIds conversation of None \<Rightarrow> [] | Some a \<Rightarrow> a)) \<longrightarrow>
            revokeMessage P c target now push s = (Inl NotAuthorized, s)) \<and>
         (fst (revokeMessage P c target now push s) = Inr () \<longrightarrow>
            ident_id (identity s) = msg_senderId message \<or>
            ident_id (identity s) \<in>
              set (case adminIds conversation of None \<Rightarrow> [] | Some a \<Rightarrow> a))"
  using assms
  by (auto simp: revokeMessage_def getConversation_def canRevoke_def Let_def split: if_splits)

theorem revokeMessage_requires_authorization_witness:
  "revokeMessage toy_prims ''g1'' ''m1'' 2000 (PushResult 1) (holding carol) =
     (Inl NotAuthorized, holding carol) \<and>
   fst (revokeMessage toy_prims ''g1'' ''m1'' 2000 (PushResult 1) (holding alice)) = Inr () \<and>
   (ident_id (identity (holding alice)) = msg_senderId bob_message \<or>
    ident_id (identity (holding alice)) \<in>
      set (case adminIds group_abc of None \<Rightarrow> [] | Some a \<Rightarrow> a))"
proof -
  have carol: "\<not> (ident_id (identity (holding carol)) = msg_senderId bob_message \<or>
      ident_id (identity (holding carol)) \<in>
        set (case adminIds group_abc of None \<Rightarrow> [] | Some a \<Rightarrow> a))"
    by (simp add: holding_fields carol_def bob_message_def group_abc_def)
  have ok: "fst (revokeMessage toy_prims ''g1'' ''m1'' 2000 (PushResult 1) (holding alice)) =
      Inr ()"
    by (simp add: revokeMessage_def getConversation_def holding_fields joined_fields
        canRevoke_def Let_def alice_def bob_message_def group_abc_def publish_result
        applyTombstone_def emit_frame)
  show ?thesis
    using revokeMessage_requires_authorization
      [of "holding carol" "''g1''" group_abc "''m1''" bob_message toy_prims 2000 "PushResult 1"]
      revokeMessage_requires_authorization
      [of "holding alice" "''g1''" group_abc "''m1''" bob_message toy_prims 2000 "PushResult 1"]
      carol ok
    by (simp add: holding_fields joined_fields)
qed

subsection \<open>The receive handler's early returns\<close>

text \<open>
  C4 fails in the code on an envelope whose signature is not 64 bytes long. Here bob's
  client receives alice's chat message with the signature replaced by the empty string.
  \<^verbatim>\<open>ed25519.verify\<close> throws, \<^verbatim>\<open>verifyPayload\<close> and \<^verbatim>\<open>handleDecodedMessage\<close> do not catch it,
  and the handler ends with the error instead of returning. The client's state is the
  one the handler was given.
\<close>

theorem malformed_signature_raises:
  "handleDecodedMessage toy_prims ''c1'' (Some (alice_chat\<lparr>w_signature := []\<rparr>)) (joined bob) =
     (Inl VerifyThrew, joined bob)"
proof -
  have "w_conversationId (alice_chat\<lparr>w_signature := []\<rparr>) = ''c1''"
    by (simp add: alice_chat_def toy_chat_fields)
  moreover have "verifyPayload toy_prims (signaturePayload (alice_chat\<lparr>w_signature := []\<rparr>))
      (w_signature (alice_chat\<lparr>w_signature := []\<rparr>))
      (fromBase64 toy_prims (w_senderEd25519 (alice_chat\<lparr>w_signature := []\<rparr>))) = None"
    by (simp add: verifyPayload_def toy_prims_def)
  ultimately show ?thesis
    by (rule verify_throw_propagates)
qed

text \<open>
  C9. An envelope whose \<^verbatim>\<open>conversationId\<close> is not the conversation of the subscription
  it arrives on is ignored, whatever its signature: the handler returns normally with
  the state it was given.
\<close>

theorem foreign_conversation_ignored:
  "w_conversationId parsed \<noteq> c \<Longrightarrow>
   handleDecodedMessage P c (Some parsed) s = (Inr (), s)"
  by (simp add: handleDecodedMessage_def)

theorem foreign_conversation_ignored_witness:
  "handleDecodedMessage toy_prims ''g1'' (Some alice_chat) (joined bob) = (Inr (), joined bob)"
proof -
  have "w_conversationId alice_chat \<noteq> ''g1''"
    by (simp add: alice_chat_def toy_chat_def sign_envelope_def Let_def split: prod.splits)
  then show ?thesis
    by (rule foreign_conversation_ignored)
qed

subsection \<open>Tombstones and deletion in the store\<close>

text \<open>
  C8. Applying a tombstone a second time changes neither the message map nor the
  pending tombstones: after two applications the target, when stored, is the stored
  message with \<open>revoked\<close> set, and when not stored, the pending entry of the target is
  the tombstone.
\<close>

theorem applyTombstone_idempotent:
  "messages (applyTombstone c t (applyTombstone c t s)) = messages (applyTombstone c t s) \<and>
   pendingTombstones (applyTombstone c t (applyTombstone c t s)) =
     pendingTombstones (applyTombstone c t s) \<and>
   messages (applyTombstone c t (applyTombstone c t s)) (targetMessageId t) =
     map_option (\<lambda>m. m\<lparr>revoked := True\<rparr>) (messages s (targetMessageId t)) \<and>
   pendingTombstones (applyTombstone c t (applyTombstone c t s)) (targetMessageId t) =
     (if messages s (targetMessageId t) = None then Some t
      else pendingTombstones s (targetMessageId t))"
  by (auto simp: applyTombstone_messages applyTombstone_pending split: option.splits)

text \<open>
  C10. \<^verbatim>\<open>deleteMessage\<close> on an identifier that is not stored returns the state it was
  given. On a stored identifier it sets \<open>deleted\<close> on that message and changes nothing
  else: the other fields of the message, the other messages and the rest of the state
  are as before. It has no failing branch.
\<close>

theorem deleteMessage_frame:
  "(messages s messageId = None \<longrightarrow> deleteMessage messageId s = s) \<and>
   (\<forall>message. messages s messageId = Some message \<longrightarrow>
      deleteMessage messageId s =
        s\<lparr>messages := (messages s)(messageId \<mapsto> message\<lparr>deleted := True\<rparr>)\<rparr> \<and>
      messages (deleteMessage messageId s) messageId = Some (message\<lparr>deleted := True\<rparr>) \<and>
      (\<forall>other. other \<noteq> messageId \<longrightarrow>
         messages (deleteMessage messageId s) other = messages s other))"
  by (simp add: deleteMessage_def)

theorem deleteMessage_frame_witness:
  "deleteMessage ''m2'' (holding bob) = holding bob \<and>
   messages (deleteMessage ''m1'' (holding bob)) ''m1'' = Some (bob_message\<lparr>deleted := True\<rparr>) \<and>
   messages (deleteMessage ''m1'' (holding bob)) ''m2'' = messages (holding bob) ''m2''"
proof -
  have absent: "messages (holding bob) ''m2'' = None"
    by (simp add: holding_def)
  have present: "messages (holding bob) ''m1'' = Some bob_message"
    by (simp add: holding_def)
  have a: "deleteMessage ''m2'' (holding bob) = holding bob"
    using deleteMessage_frame [THEN conjunct1, THEN mp, OF absent] .
  note b = deleteMessage_frame [THEN conjunct2, THEN spec, THEN mp, OF present]
  have c: "messages (deleteMessage ''m1'' (holding bob)) ''m2'' = messages (holding bob) ''m2''"
    using b [THEN conjunct2, THEN conjunct2, THEN spec, of "''m2''"] by simp
  show ?thesis
    using a b [THEN conjunct2, THEN conjunct1] c by (intro conjI)
qed

subsection \<open>Sending\<close>

text \<open>
  C5. When the conversation is joined, its key can be derived and the node is
  initialised, a \<^verbatim>\<open>sendMessage\<close> whose publish times out or reports no success fails
  with the transport's error (\<open>Timeout\<close>, respectively \<open>LightPushFailed\<close>), and
  the state it leaves holds the sent message under its identifier, not revoked and not
  deleted, and has called every handler of the conversation with the message event.
\<close>

theorem sendMessage_not_rolled_back:
  assumes "conversations s c = Some conversation"
      and "deriveConversationKey P (identity s) conversation = Inr key"
      and "waku s"
      and "push = PushTimeout \<or> push = PushResult 0"
  shows "\<exists>messageId s'.
           sendMessage P c plaintext random now push s =
             (Inl (case push of PushTimeout \<Rightarrow> Timeout | PushResult n \<Rightarrow> LightPushFailed), s') \<and>
           messages s' messageId =
             Some \<lparr>msg_id = messageId, msg_conversationId = c,
                   msg_senderId = ident_id (identity s), msg_text = plaintext,
                   msg_timestamp = now, revoked = False, deleted = False\<rparr> \<and>
           delivered s' = delivered s @
             map (\<lambda>h. (h, MessageEvent \<lparr>msg_id = messageId, msg_conversationId = c,
                   msg_senderId = ident_id (identity s), msg_text = plaintext,
                   msg_timestamp = now, revoked = False, deleted = False\<rparr>))
               (case handlers s c of None \<Rightarrow> [] | Some hs \<Rightarrow> hs)"
proof -
  obtain nonce ciphertext where enc: "encryptPayload P plaintext key random = (nonce, ciphertext)"
    by (cases "encryptPayload P plaintext key random")
  define messageId where "messageId = canonicalId P
     [c, ident_id (identity s), nonce, ciphertext, show_int now]"
  define message where "message = \<lparr>msg_id = messageId, msg_conversationId = c,
                   msg_senderId = ident_id (identity s), msg_text = plaintext,
                   msg_timestamp = now, revoked = False, deleted = False\<rparr>"
  define s2 where
    "s2 = emit c (MessageEvent message) (s\<lparr>messages := (messages s)(messageId \<mapsto> message)\<rparr>)"
  have w2: "waku s2" using assms(3) by (simp add: s2_def emit_frame)
  have "\<exists>env. sendMessage P c plaintext random now push s =
     (case publish c env push s2 of
        (Inl e, s3) \<Rightarrow> (Inl e, s3)
      | (Inr _, s3) \<Rightarrow> (Inr messageId, s3))"
    unfolding sendMessage_def getConversation_def Let_def messageId_def message_def s2_def
    using assms(1,2) enc by (simp only: option.case sum.case prod.case) (rule exI, rule refl)
  then obtain env where send: "sendMessage P c plaintext random now push s =
     (case publish c env push s2 of
        (Inl e, s3) \<Rightarrow> (Inl e, s3)
      | (Inr _, s3) \<Rightarrow> (Inr messageId, s3))"
    by blast
  obtain r s3 where p: "publish c env push s2 = (r, s3)" by (cases "publish c env push s2")
  have r: "r = Inl (case push of PushTimeout \<Rightarrow> Timeout | PushResult n \<Rightarrow> LightPushFailed)"
    using publish_result(1) [OF w2, of c env push] p assms(4) by auto
  have s3: "messages s3 = messages s2" "delivered s3 = delivered s2"
    using publish_frame(1,3) [of c env push s2] p by simp_all
  have "sendMessage P c plaintext random now push s =
      (Inl (case push of PushTimeout \<Rightarrow> Timeout | PushResult n \<Rightarrow> LightPushFailed), s3)"
    using send p r by simp
  moreover have "messages s3 messageId = Some message"
    by (simp add: s3 s2_def emit_frame)
  moreover have "delivered s3 = delivered s @ map (\<lambda>h. (h, MessageEvent message))
      (case handlers s c of None \<Rightarrow> [] | Some hs \<Rightarrow> hs)"
    by (simp add: s3 s2_def emit_delivered)
  ultimately show ?thesis
    unfolding message_def by blast
qed

theorem sendMessage_not_rolled_back_witness:
  "\<exists>messageId s'.
     sendMessage toy_prims ''c1'' ''hi'' [7, 7, 7] 1000 PushTimeout (joined alice) =
       (Inl Timeout, s') \<and>
     messages s' messageId =
       Some \<lparr>msg_id = messageId, msg_conversationId = ''c1'', msg_senderId = ''alice'',
             msg_text = ''hi'', msg_timestamp = 1000, revoked = False, deleted = False\<rparr> \<and>
     delivered s' =
       [(0, MessageEvent \<lparr>msg_id = messageId, msg_conversationId = ''c1'',
             msg_senderId = ''alice'', msg_text = ''hi'', msg_timestamp = 1000,
             revoked = False, deleted = False\<rparr>)]"
proof -
  have key: "deriveConversationKey toy_prims (identity (joined alice)) direct_ab =
      Inr (deriveDirectKey toy_prims ''c1'' (x25519PrivateKey alice) (x25519PublicKey bob))"
    by (simp add: deriveConversationKey_def joined_fields direct_ab_def participant_def
        alice_def bob_def)
  show ?thesis
    using sendMessage_not_rolled_back
      [OF joined_fields(1) [of alice] key joined_fields(8) [of alice], of PushTimeout
        "''hi''" "[7, 7, 7]" 1000]
    by (simp add: joined_fields alice_def)
qed

subsection \<open>A tombstone that arrives before its target\<close>







subsection \<open>Signatures over the canonical serialization\<close>

text \<open>
  C7 fails in the code. \<^verbatim>\<open>stableStringify\<close> writes an object's keys as they are, between
  double quotes, while values go through \<^verbatim>\<open>JSON.stringify\<close>; a key that contains a double
  quote can therefore imitate a key, a value and the next key. The objects \<open>keyed\<close>
  and \<open>keyed'\<close> differ in their property \<open>a\<close> and have one canonical serialization,
  and the signature made for \<open>keyed\<close> verifies for \<open>keyed'\<close>.
\<close>

theorem unescaped_key_collision:
  "keyed' \<noteq> keyed \<and>
   stableStringify keyed' = stableStringify keyed \<and>
   verifyPayload toy_prims keyed'
     (signPayload toy_prims keyed (ed25519PrivateKey alice)) (ed25519PublicKey alice) =
     Some True"
proof -
  have c: "stableStringify keyed' = stableStringify keyed"
    by (simp add: keyed_def keyed'_def show_int_small)
  have "verifyPayload toy_prims keyed
     (signPayload toy_prims keyed (ed25519PrivateKey alice)) (ed25519PublicKey alice) =
     Some True"
    by (simp add: verify_sign toy_base64_roundtrip toy_sign_verify toy_keys)
  then show ?thesis
    using c verifyPayload_canonical [OF c, of toy_prims] by (simp add: keyed_def keyed'_def)
qed

end
